theory Spec2Isabelle
  imports Complex_Main
begin

section \<open>The Cartesian motion controller\<close>

text \<open>
  A shallow embedding of \<^verbatim>\<open>cartesian_motion_controller.hpp\<close>: the member functions
  \<^verbatim>\<open>starting\<close>, \<^verbatim>\<open>update\<close> (generic and velocity specialisation),
  \<^verbatim>\<open>computeMotionError\<close>, \<^verbatim>\<open>targetFrameCallback\<close> and \<^verbatim>\<open>targetTwistCallback\<close>
  of \<^verbatim>\<open>CartesianMotionController\<close>.

  Every \<^verbatim>\<open>double\<close> of the source is a \<^typ>\<open>real\<close> here: rounding, infinities and
  NaN are not modelled. Member variables are fields of a state record that each member
  function takes and returns; messages published, warnings printed and calls into the
  base class are appended to an effect list.
\<close>

subsection \<open>Geometry types\<close>

text \<open>\<^verbatim>\<open>KDL::Vector\<close>, also used for the point and 3-vector messages.\<close>

datatype Vector = Vector (vx: real) (vy: real) (vz: real)

text \<open>\<^verbatim>\<open>KDL::Rotation\<close>: nine entries in row-major order, as its constructor takes them.\<close>

datatype Rotation = Rotation real real real  real real real  real real real

text \<open>\<^verbatim>\<open>KDL::Frame\<close> with its members \<^verbatim>\<open>M\<close> and \<^verbatim>\<open>p\<close>.\<close>

datatype Frame = Frame (Frame_M: Rotation) (Frame_p: Vector)

text \<open>A quaternion with components x, y, z, w (message and \<^verbatim>\<open>tf::Quaternion\<close> alike).\<close>

datatype Quaternion = Quaternion (qx: real) (qy: real) (qz: real) (qw: real)

text \<open>\<^verbatim>\<open>geometry_msgs::Pose\<close>, \<^verbatim>\<open>PoseStamped\<close> with the two header fields read or
  written by the controller, and \<^verbatim>\<open>Twist\<close>.\<close>

record Pose =
  position :: Vector
  orientation :: Quaternion

record PoseStamped =
  stamp :: real
  frame_id :: string
  pose :: Pose

record Twist =
  linear :: Vector
  angular :: Vector

text \<open>\<^verbatim>\<open>ctrl::Vector6D\<close>: components 0 to 5.\<close>

datatype Vector6D = Vector6D real real real real real real

fun translational :: "Vector6D \<Rightarrow> Vector" where
  "translational (Vector6D e0 e1 e2 e3 e4 e5) = Vector e0 e1 e2"

fun rotational :: "Vector6D \<Rightarrow> Vector" where
  "rotational (Vector6D e0 e1 e2 e3 e4 e5) = Vector e3 e4 e5"

subsection \<open>Arithmetic of the geometry library\<close>

definition Vector_Zero :: Vector where
  "Vector_Zero = Vector 0 0 0"

text \<open>\<^verbatim>\<open>operator-(Vector, Vector)\<close> and \<^verbatim>\<open>operator*(Vector, double)\<close>.\<close>

fun vector_minus :: "Vector \<Rightarrow> Vector \<Rightarrow> Vector" where
  "vector_minus (Vector a b c) (Vector d e f) = Vector (a - d) (b - e) (c - f)"

fun vector_scale :: "Vector \<Rightarrow> real \<Rightarrow> Vector" where
  "vector_scale (Vector a b c) k = Vector (a * k) (b * k) (c * k)"

text \<open>The Euclidean length, the magnitude the bounds speak about.\<close>

fun vector_norm :: "Vector \<Rightarrow> real" where
  "vector_norm (Vector a b c) = sqrt (a * a + b * b + c * c)"

definition Rotation_Identity :: Rotation where
  "Rotation_Identity = Rotation 1 0 0  0 1 0  0 0 1"

text \<open>\<^verbatim>\<open>operator*(Rotation, Rotation)\<close>: the matrix product.\<close>

fun rotation_times :: "Rotation \<Rightarrow> Rotation \<Rightarrow> Rotation" where
  "rotation_times (Rotation a0 a1 a2 a3 a4 a5 a6 a7 a8) (Rotation b0 b1 b2 b3 b4 b5 b6 b7 b8) =
     Rotation (a0 * b0 + a1 * b3 + a2 * b6) (a0 * b1 + a1 * b4 + a2 * b7) (a0 * b2 + a1 * b5 + a2 * b8)
              (a3 * b0 + a4 * b3 + a5 * b6) (a3 * b1 + a4 * b4 + a5 * b7) (a3 * b2 + a4 * b5 + a5 * b8)
              (a6 * b0 + a7 * b3 + a8 * b6) (a6 * b1 + a7 * b4 + a8 * b7) (a6 * b2 + a7 * b5 + a8 * b8)"

text \<open>\<^verbatim>\<open>Rotation::Inverse()\<close>: the library transposes the matrix.\<close>

fun Inverse :: "Rotation \<Rightarrow> Rotation" where
  "Inverse (Rotation a0 a1 a2 a3 a4 a5 a6 a7 a8) = Rotation a0 a3 a6  a1 a4 a7  a2 a5 a8"

fun determinant :: "Rotation \<Rightarrow> real" where
  "determinant (Rotation a0 a1 a2 a3 a4 a5 a6 a7 a8) =
     a0 * (a4 * a8 - a5 * a7) - a1 * (a3 * a8 - a5 * a6) + a2 * (a3 * a7 - a4 * a6)"

text \<open>A valid rotation: orthonormal with determinant +1.\<close>

definition is_rotation :: "Rotation \<Rightarrow> bool" where
  "is_rotation R = (rotation_times R (Inverse R) = Rotation_Identity \<and> determinant R = 1)"

text \<open>\<^verbatim>\<open>Rotation::Quaternion(x, y, z, w)\<close>: the matrix of the quaternion, whose norm the
  library expects to be 1 and does not check.\<close>

definition Rotation_Quaternion :: "real \<Rightarrow> real \<Rightarrow> real \<Rightarrow> real \<Rightarrow> Rotation" where
  "Rotation_Quaternion x y z w =
     (let x2 = x * x; y2 = y * y; z2 = z * z; w2 = w * w
      in Rotation (w2 + x2 - y2 - z2) (2 * x * y - 2 * w * z) (2 * x * z + 2 * w * y)
                  (2 * x * y + 2 * w * z) (w2 - x2 + y2 - z2) (2 * y * z - 2 * w * x)
                  (2 * x * z - 2 * w * y) (2 * y * z + 2 * w * x) (w2 - x2 - y2 + z2))"

text \<open>\<^verbatim>\<open>tf::Quaternion\<close>: the Hamilton product and \<^verbatim>\<open>setRPY(roll, pitch, yaw)\<close>.\<close>

fun quaternion_times :: "Quaternion \<Rightarrow> Quaternion \<Rightarrow> Quaternion" where
  "quaternion_times (Quaternion x1 y1 z1 w1) (Quaternion x2 y2 z2 w2) =
     Quaternion (w1 * x2 + x1 * w2 + y1 * z2 - z1 * y2)
                (w1 * y2 + y1 * w2 + z1 * x2 - x1 * z2)
                (w1 * z2 + z1 * w2 + x1 * y2 - y1 * x2)
                (w1 * w2 - x1 * x2 - y1 * y2 - z1 * z2)"

definition setRPY :: "real \<Rightarrow> real \<Rightarrow> real \<Rightarrow> Quaternion" where
  "setRPY roll pitch yaw =
     (let halfYaw = yaw * 0.5; halfPitch = pitch * 0.5; halfRoll = roll * 0.5;
          cosYaw = cos halfYaw; sinYaw = sin halfYaw;
          cosPitch = cos halfPitch; sinPitch = sin halfPitch;
          cosRoll = cos halfRoll; sinRoll = sin halfRoll
      in Quaternion (sinRoll * cosPitch * cosYaw - cosRoll * sinPitch * sinYaw)
                    (cosRoll * sinPitch * cosYaw + sinRoll * cosPitch * sinYaw)
                    (cosRoll * cosPitch * sinYaw - sinRoll * sinPitch * cosYaw)
                    (cosRoll * cosPitch * cosYaw + sinRoll * sinPitch * sinYaw))"

fun length2 :: "Quaternion \<Rightarrow> real" where
  "length2 (Quaternion a b c d) = a * a + b * b + c * c + d * d"

text \<open>\<^verbatim>\<open>boost::algorithm::clamp(val, lo, hi)\<close>.\<close>

definition clamp :: "real \<Rightarrow> real \<Rightarrow> real \<Rightarrow> real" where
  "clamp val lo hi = (if val < lo then lo else if hi < val then hi else val)"

subsection \<open>Library functions taken as parameters\<close>

text \<open>
  The controller calls five functions of its geometry and message libraries whose
  treatment of degenerate or malformed input is the library's own matter; they are
  parameters of the model:
  \<^item> \<^verbatim>\<open>Rotation::GetRotAngle(axis)\<close> takes the axis variable, stores the axis in it and
    returns the angle;
  \<^item> \<^verbatim>\<open>Vector::Normalize()\<close> returns the length and overwrites the vector;
  \<^item> \<^verbatim>\<open>tf::poseKDLToMsg\<close> converts a frame to a pose message;
  \<^item> \<^verbatim>\<open>tf::quaternionMsgToTF\<close> and \<^verbatim>\<open>tf::quaternionTFToMsg\<close> convert between the
    message and the \<^verbatim>\<open>tf\<close> quaternion.
\<close>

record library =
  GetRotAngle :: "Rotation \<Rightarrow> Vector \<Rightarrow> Vector \<times> real"
  Normalize :: "Vector \<Rightarrow> Vector \<times> real"
  poseKDLToMsg :: "Frame \<Rightarrow> Pose"
  quaternionMsgToTF :: "Quaternion \<Rightarrow> Quaternion"
  quaternionTFToMsg :: "Quaternion \<Rightarrow> Quaternion"

subsection \<open>The base class\<close>

text \<open>
  \<^verbatim>\<open>CartesianControllerBase\<close> is not part of the file: its state is a type parameter
  \<open>'b\<close>, its member functions and the two configuration values the controller reads are
  parameters.
\<close>

record 'b base_class =
  Base_starting :: "real \<Rightarrow> 'b \<Rightarrow> 'b"
  getEndEffectorPose :: "'b \<Rightarrow> Frame"
  computeJointControlCmds :: "Vector6D \<Rightarrow> real \<Rightarrow> 'b \<Rightarrow> 'b"
  writeJointControlCmds :: "'b \<Rightarrow> 'b"
  m_iterations :: int
  m_robot_base_link :: string

subsection \<open>Controller state and effects\<close>

datatype effect =
    Published PoseStamped
  | Warn_Throttle real string
  | JointControlCmds Vector6D real
  | WriteJointControlCmds

record 'b controller =
  base :: 'b
  m_target_frame :: Frame
  m_current_frame :: Frame
  current_pose :: PoseStamped
  effects :: "effect list"

subsection \<open>The member functions\<close>

definition starting :: "'b base_class \<Rightarrow> real \<Rightarrow> 'b controller \<Rightarrow> 'b controller" where
  "starting B time s =
     (let s1 = s\<lparr>base := Base_starting B time (base s)\<rparr>;
          s2 = s1\<lparr>m_current_frame := getEndEffectorPose B (base s1)\<rparr>
      in s2\<lparr>m_target_frame := m_current_frame s2\<rparr>)"

definition max_angle :: real where
  "max_angle = 1.0"

definition max_distance :: real where
  "max_distance = 1.0"

text \<open>\<^verbatim>\<open>computeMotionError\<close>; \<open>now\<close> is what \<^verbatim>\<open>ros::Time::now()\<close> returns.\<close>

definition computeMotionError ::
  "'b base_class \<Rightarrow> library \<Rightarrow> real \<Rightarrow> 'b controller \<Rightarrow> Vector6D \<times> 'b controller" where
  "computeMotionError B L now s =
     (let s1 = s\<lparr>m_current_frame := getEndEffectorPose B (base s)\<rparr>;
          s2 = s1\<lparr>current_pose := (current_pose s1)\<lparr>stamp := now\<rparr>\<rparr>;
          s3 = s2\<lparr>current_pose := (current_pose s2)\<lparr>pose := poseKDLToMsg L (m_current_frame s2)\<rparr>\<rparr>;
          s4 = s3\<lparr>effects := effects s3 @ [Published (current_pose s3)]\<rparr>;
          error_kdl_M = rotation_times (Frame_M (m_target_frame s4)) (Inverse (Frame_M (m_current_frame s4)));
          error_kdl_p = vector_minus (Frame_p (m_target_frame s4)) (Frame_p (m_current_frame s4));
          rot_axis = Vector_Zero;
          (rot_axis, angle) = GetRotAngle L error_kdl_M rot_axis;
          (error_kdl_p, distance) = Normalize L error_kdl_p;
          angle = clamp angle (- max_angle) max_angle;
          distance = clamp distance (- max_distance) max_distance;
          rot_axis = vector_scale rot_axis angle;
          error_kdl_p = vector_scale error_kdl_p distance
      in (Vector6D (vx error_kdl_p) (vy error_kdl_p) (vz error_kdl_p)
                   (vx rot_axis) (vy rot_axis) (vz rot_axis), s4))"




definition wrong_frame_message :: "string \<Rightarrow> string \<Rightarrow> string" where
  "wrong_frame_message expected got =
     ''Got target pose in wrong reference frame. Expected: '' @ expected @ '' but got '' @ got"

definition targetFrameCallback ::
  "'b base_class \<Rightarrow> 'b controller \<Rightarrow> PoseStamped \<Rightarrow> 'b controller" where
  "targetFrameCallback B s target =
     (if frame_id target \<noteq> m_robot_base_link B then
        s\<lparr>effects := effects s @
            [Warn_Throttle 3 (wrong_frame_message (m_robot_base_link B) (frame_id target))]\<rparr>
      else
        s\<lparr>m_target_frame :=
            Frame (Rotation_Quaternion (qx (orientation (pose target))) (qy (orientation (pose target)))
                                       (qz (orientation (pose target))) (qw (orientation (pose target))))
                  (Vector (vx (position (pose target))) (vy (position (pose target)))
                          (vz (position (pose target))))\<rparr>)"

definition targetTwistCallback ::
  "library \<Rightarrow> 'b controller \<Rightarrow> Twist \<Rightarrow> 'b controller" where
  "targetTwistCallback L s twist =
     (let target = pose (current_pose s);
          target = target\<lparr>position :=
                     Vector (vx (position target) + vx (linear twist))
                            (vy (position target) + vy (linear twist))
                            (vz (position target) + vz (linear twist))\<rparr>;
          temp1 = quaternionMsgToTF L (orientation target);
          temp2 = setRPY (vx (angular twist)) (vy (angular twist)) (vz (angular twist));
          target = target\<lparr>orientation := quaternionTFToMsg L (quaternion_times temp2 temp1)\<rparr>
      in s\<lparr>m_target_frame :=
            Frame (Rotation_Quaternion (qx (orientation target)) (qy (orientation target))
                                       (qz (orientation target)) (qw (orientation target)))
                  (Vector (vx (position target)) (vy (position target)) (vz (position target)))\<rparr>)"

text \<open>\<^verbatim>\<open>Rotation::Quaternion\<close> applied to the four components of a quaternion, as both
  producers call it.\<close>

definition rotation_of :: "Quaternion \<Rightarrow> Rotation" where
  "rotation_of q = Rotation_Quaternion (qx q) (qy q) (qz q) (qw q)"

subsection \<open>What the library is expected to satisfy\<close>

text \<open>The error rotation and the error translation that \<^verbatim>\<open>computeMotionError\<close> forms
  in a state, from the target and the pose the solver reports.\<close>

definition error_rotation :: "'b base_class \<Rightarrow> 'b controller \<Rightarrow> Rotation" where
  "error_rotation B s =
     rotation_times (Frame_M (m_target_frame s)) (Inverse (Frame_M (getEndEffectorPose B (base s))))"

definition error_translation :: "'b base_class \<Rightarrow> 'b controller \<Rightarrow> Vector" where
  "error_translation B s =
     vector_minus (Frame_p (m_target_frame s)) (Frame_p (getEndEffectorPose B (base s)))"

text \<open>
  Modelled from the spec: what the helper \<open>axisAngle\<close> (here \<^verbatim>\<open>GetRotAngle\<close>, a library
  function) returns in the identity case: the angle 0, whatever axis it stores.
\<close>

definition identity_angle_zero :: "library \<Rightarrow> bool" where
  "identity_angle_zero L = (snd (GetRotAngle L Rotation_Identity Vector_Zero) = 0)"

text \<open>
  Modelled from the spec: what the helper \<open>normalize\<close> (here \<^verbatim>\<open>Normalize\<close>, a library
  function) returns in the zero-vector case: the original length 0, whatever direction
  it leaves.
\<close>

definition zero_length_zero :: "library \<Rightarrow> bool" where
  "zero_length_zero L = (snd (Normalize L Vector_Zero) = 0)"

text \<open>The two quaternion conversions hand a quaternion of norm 1 on as it is.\<close>

definition unit_quaternion_kept :: "library \<Rightarrow> bool" where
  "unit_quaternion_kept L =
     (\<forall>q. length2 q = 1 \<longrightarrow> quaternionMsgToTF L q = q \<and> quaternionTFToMsg L q = q)"

subsection \<open>The algorithm in the words of the specification\<close>

text \<open>
  The Motion Error Computer, steps 1 to 6: relative rotation and translation, axis-angle
  and direction-distance extraction by the two given helpers, clamping, scaling, and the
  6D vector of translation part and rotation part.
\<close>

definition spec_motion_error ::
  "(Rotation \<Rightarrow> Vector \<times> real) \<Rightarrow> (Vector \<Rightarrow> Vector \<times> real) \<Rightarrow> Frame \<Rightarrow> Frame \<Rightarrow> Vector \<times> Vector" where
  "spec_motion_error axisAngle normalize_vector current target =
     (let error_rotation = rotation_times (Frame_M target) (Inverse (Frame_M current));
          error_translation = vector_minus (Frame_p target) (Frame_p current);
          rotation_error_vec =
            vector_scale (fst (axisAngle error_rotation))
                         (clamp (snd (axisAngle error_rotation)) (- max_angle) max_angle);
          translation_error_vec =
            vector_scale (fst (normalize_vector error_translation))
                         (clamp (snd (normalize_vector error_translation)) (- max_distance) max_distance)
      in (translation_error_vec, rotation_error_vec))"

text \<open>
  The twist producer's \<open>delta_rotation\<close>: the rotation by roll about the fixed x axis,
  then pitch about the fixed y axis, then yaw about the fixed z axis.
\<close>

definition rotation_x :: "real \<Rightarrow> Rotation" where
  "rotation_x a = Rotation 1 0 0  0 (cos a) (- sin a)  0 (sin a) (cos a)"

definition rotation_y :: "real \<Rightarrow> Rotation" where
  "rotation_y a = Rotation (cos a) 0 (sin a)  0 1 0  (- sin a) 0 (cos a)"

definition rotation_z :: "real \<Rightarrow> Rotation" where
  "rotation_z a = Rotation (cos a) (- sin a) 0  (sin a) (cos a) 0  0 0 1"

definition delta_rotation :: "Vector \<Rightarrow> Rotation" where
  "delta_rotation w =
     rotation_times (rotation_z (vz w)) (rotation_times (rotation_y (vy w)) (rotation_x (vx w)))"



subsection \<open>A concrete library and base class for examples\<close>

text \<open>
  Modelled from the spec: the helper \<open>normalize\<close> of the Pose/Orientation Math component,
  which the source takes from its geometry library: the unit direction and the original
  length, and a zero result for the zero vector.
\<close>

definition example_Normalize :: "Vector \<Rightarrow> Vector \<times> real" where
  "example_Normalize v =
     (let n = vector_norm v
      in if n = 0 then (Vector_Zero, 0) else (vector_scale v (1 / n), n))"

text \<open>
  Modelled from the spec: the helper \<open>axisAngle\<close> of the Pose/Orientation Math component,
  which the source takes from its geometry library: the axis is the unit vector along
  the antisymmetric part of the rotation, zero in the degenerate cases, and the angle
  comes from the trace.
\<close>

fun example_GetRotAngle :: "Rotation \<Rightarrow> Vector \<Rightarrow> Vector \<times> real" where
  "example_GetRotAngle (Rotation a0 a1 a2 a3 a4 a5 a6 a7 a8) axis =
     (fst (example_Normalize (Vector (a7 - a5) (a2 - a6) (a3 - a1))),
      arccos ((a0 + a4 + a8 - 1) / 2))"

text \<open>
  Modelled from the spec: the current-pose snapshot carries the orientation of the
  frame, sent as a quaternion of that rotation (a library conversion).
\<close>

fun example_GetQuaternion :: "Rotation \<Rightarrow> Quaternion" where
  "example_GetQuaternion (Rotation a0 a1 a2 a3 a4 a5 a6 a7 a8) =
     (if 0 < a0 + a4 + a8 then
        (let s = 2 * sqrt (a0 + a4 + a8 + 1)
         in Quaternion ((a7 - a5) / s) ((a2 - a6) / s) ((a3 - a1) / s) (s / 4))
      else if a4 < a0 \<and> a8 < a0 then
        (let s = 2 * sqrt (1 + a0 - a4 - a8)
         in Quaternion (s / 4) ((a1 + a3) / s) ((a2 + a6) / s) ((a7 - a5) / s))
      else if a8 < a4 then
        (let s = 2 * sqrt (1 + a4 - a0 - a8)
         in Quaternion ((a1 + a3) / s) (s / 4) ((a5 + a7) / s) ((a2 - a6) / s))
      else
        (let s = 2 * sqrt (1 + a8 - a0 - a4)
         in Quaternion ((a2 + a6) / s) ((a5 + a7) / s) (s / 4) ((a3 - a1) / s)))"

text \<open>
  Modelled from the spec: the current-pose snapshot is the position and the orientation
  of the frame the solver reports (a library conversion).
\<close>

definition example_poseKDLToMsg :: "Frame \<Rightarrow> Pose" where
  "example_poseKDLToMsg f =
     \<lparr>position = Frame_p f, orientation = example_GetQuaternion (Frame_M f)\<rparr>"

text \<open>
  Modelled from the spec: malformed orientation input is normalized (a library
  conversion). A quaternion whose squared length is off 1 by more than a tenth is scaled
  to length 1.
\<close>

fun example_normalized :: "Quaternion \<Rightarrow> Quaternion" where
  "example_normalized (Quaternion a b c d) =
     (if 0.1 < \<bar>length2 (Quaternion a b c d) - 1\<bar> then
        (let n = sqrt (length2 (Quaternion a b c d)) in Quaternion (a / n) (b / n) (c / n) (d / n))
      else Quaternion a b c d)"

text \<open>The library parameters put together.\<close>

definition example_library :: library where
  "example_library =
     \<lparr>GetRotAngle = example_GetRotAngle,
      Normalize = example_Normalize,
      poseKDLToMsg = example_poseKDLToMsg,
      quaternionMsgToTF = example_normalized,
      quaternionTFToMsg = example_normalized\<rparr>"

text \<open>
  Modelled from the spec: the base class with the forward-dynamics collaborator behind
  its narrow interface (advance by an error and a time step, report the end-effector
  pose, commit the joint commands), here a frame that moves by the translation error
  times the step, with three iterations per cycle.
\<close>

definition example_base :: "Frame base_class" where
  "example_base =
     \<lparr>Base_starting = (\<lambda>time b. b),
      getEndEffectorPose = (\<lambda>b. b),
      computeJointControlCmds = (\<lambda>error period b.
        Frame (Frame_M b)
              (Vector (vx (Frame_p b) + vx (translational error) * period)
                      (vy (Frame_p b) + vy (translational error) * period)
                      (vz (Frame_p b) + vz (translational error) * period))),
      writeJointControlCmds = (\<lambda>b. b),
      m_iterations = 3,
      m_robot_base_link = ''base_link''\<rparr>"

text \<open>A state at rest in the origin, nothing published so far.\<close>

definition example_state :: "Frame controller" where
  "example_state =
     \<lparr>base = Frame Rotation_Identity (Vector 0 0 0),
      m_target_frame = Frame Rotation_Identity (Vector 0 0 0),
      m_current_frame = Frame Rotation_Identity (Vector 0 0 0),
      current_pose = \<lparr>stamp = 0, frame_id = [],
                       pose = \<lparr>position = Vector 0 0 0, orientation = Quaternion 0 0 0 1\<rparr>\<rparr>,
      effects = []\<rparr>"

text \<open>The same state with a target two units along x and a quarter turn about z.\<close>

definition example_target_state :: "Frame controller" where
  "example_target_state =
     example_state\<lparr>m_target_frame := Frame (Rotation 0 (- 1) 0  1 0 0  0 0 1) (Vector 2 0 0)\<rparr>"

section \<open>Properties\<close>


subsection \<open>Vectors and clamping\<close>





lemma vector_scale_zero: "vector_scale v 0 = Vector_Zero"
  by (cases v) (simp add: Vector_Zero_def)

lemma vector_minus_self: "vector_minus v v = Vector_Zero"
  by (cases v) (simp add: Vector_Zero_def)


lemma clamp_zero:
  "clamp 0 (- max_angle) max_angle = 0"
  "clamp 0 (- max_distance) max_distance = 0"
  by (simp_all add: clamp_def max_angle_def max_distance_def)


lemma Vector6D_eqI:
  "translational e = translational e' \<Longrightarrow> rotational e = rotational e' \<Longrightarrow> e = e'"
  by (cases e; cases e') simp

subsection \<open>Quaternions and rotations\<close>

lemma length2_times: "length2 (quaternion_times a b) = length2 a * length2 b"
  by (cases a; cases b) (simp add: algebra_simps)

lemma length2_rpy_poly:
  fixes cr sr cp sp cy sy :: real
  shows "length2 (Quaternion (sr * cp * cy - cr * sp * sy) (cr * sp * cy + sr * cp * sy)
                             (cr * cp * sy - sr * sp * cy) (cr * cp * cy + sr * sp * sy)) =
         (cr * cr + sr * sr) * (cp * cp + sp * sp) * (cy * cy + sy * sy)"
  by (simp add: algebra_simps)

lemma cos_sin_square: "cos (t::real) * cos t + sin t * sin t = 1"
  using sin_cos_squared_add2 [of t] by (simp add: power2_eq_square)

lemma length2_setRPY: "length2 (setRPY r p y) = 1"
  unfolding setRPY_def Let_def length2_rpy_poly by (simp only: cos_sin_square mult_1)

lemma rotation_of_times:
  "rotation_of (quaternion_times a b) = rotation_times (rotation_of a) (rotation_of b)"
  by (cases a; cases b) (simp add: rotation_of_def Rotation_Quaternion_def Let_def algebra_simps)

lemma Rotation_Quaternion_orthogonal:
  "rotation_times (Rotation_Quaternion x y z w) (Inverse (Rotation_Quaternion x y z w)) =
   Rotation ((x * x + y * y + z * z + w * w) * (x * x + y * y + z * z + w * w)) 0 0
            0 ((x * x + y * y + z * z + w * w) * (x * x + y * y + z * z + w * w)) 0
            0 0 ((x * x + y * y + z * z + w * w) * (x * x + y * y + z * z + w * w))"
  by (simp add: Rotation_Quaternion_def Let_def algebra_simps)

lemma Rotation_Quaternion_determinant:
  "determinant (Rotation_Quaternion x y z w) =
   (x * x + y * y + z * z + w * w) * (x * x + y * y + z * z + w * w) * (x * x + y * y + z * z + w * w)"
  by (simp add: Rotation_Quaternion_def Let_def algebra_simps)

lemma unit_quaternion_is_rotation:
  assumes "length2 q = 1"
  shows "is_rotation (rotation_of q)"
proof (cases q)
  case (Quaternion x y z w)
  with assms have u: "x * x + y * y + z * z + w * w = 1" by simp
  show ?thesis
    unfolding is_rotation_def rotation_of_def Quaternion Quaternion.sel
      Rotation_Quaternion_orthogonal Rotation_Quaternion_determinant u
    by (simp add: Rotation_Identity_def)
qed

lemma cos_half: "cos (a::real) = cos (a * 0.5) * cos (a * 0.5) - sin (a * 0.5) * sin (a * 0.5)"
  using cos_double [of "a / 2"] by (simp add: power2_eq_square)

lemma sin_half: "sin (a::real) = 2 * sin (a * 0.5) * cos (a * 0.5)"
  using sin_double [of "a / 2"] by simp

lemma rotation_of_x: "rotation_of (Quaternion (sin (a * 0.5)) 0 0 (cos (a * 0.5))) = rotation_x a"
  by (simp add: rotation_of_def Rotation_Quaternion_def rotation_x_def Let_def
      cos_half [of a] sin_half [of a])

lemma rotation_of_y: "rotation_of (Quaternion 0 (sin (a * 0.5)) 0 (cos (a * 0.5))) = rotation_y a"
  by (simp add: rotation_of_def Rotation_Quaternion_def rotation_y_def Let_def
      cos_half [of a] sin_half [of a])

lemma rotation_of_z: "rotation_of (Quaternion 0 0 (sin (a * 0.5)) (cos (a * 0.5))) = rotation_z a"
  by (simp add: rotation_of_def Rotation_Quaternion_def rotation_z_def Let_def
      cos_half [of a] sin_half [of a])

text \<open>\<^verbatim>\<open>setRPY\<close> is the product of the three elementary quaternions, yaw leftmost.\<close>

lemma setRPY_product:
  "setRPY r p y =
   quaternion_times (Quaternion 0 0 (sin (y * 0.5)) (cos (y * 0.5)))
     (quaternion_times (Quaternion 0 (sin (p * 0.5)) 0 (cos (p * 0.5)))
                       (Quaternion (sin (r * 0.5)) 0 0 (cos (r * 0.5))))"
  by (simp add: setRPY_def Let_def algebra_simps)

lemma rotation_of_setRPY: "rotation_of (setRPY r p y) = delta_rotation (Vector r p y)"
  by (simp only: setRPY_product rotation_of_times rotation_of_x rotation_of_y rotation_of_z
      delta_rotation_def Vector.sel)

subsection \<open>The example library\<close>



lemma example_identity_angle_zero: "identity_angle_zero example_library"
  by (simp add: identity_angle_zero_def example_library_def Rotation_Identity_def)

lemma example_zero_length_zero: "zero_length_zero example_library"
  by (simp add: zero_length_zero_def example_library_def example_Normalize_def Vector_Zero_def)

lemma example_unit_quaternion_kept: "unit_quaternion_kept example_library"
  unfolding unit_quaternion_kept_def
proof (intro allI impI)
  fix q
  assume "length2 q = 1"
  then have "example_normalized q = q"
    by (cases q) simp
  then show "quaternionMsgToTF example_library q = q \<and> quaternionTFToMsg example_library q = q"
    by (simp add: example_library_def)
qed

lemma example_Normalize_two:
  "example_Normalize (Vector 2 0 0) = (Vector 1 0 0, 2)"
  "example_Normalize (Vector 0 0 2) = (Vector 0 0 1, 2)"
  by (simp_all add: example_Normalize_def Let_def)

lemma example_GetRotAngle_quarter:
  "example_GetRotAngle (Rotation 0 (- 1) 0  1 0 0  0 0 1) a = (Vector 0 0 1, pi / 2)"
  by (simp add: example_Normalize_two)

lemma clamp_quarter: "clamp (pi / 2) (- max_angle) max_angle = 1"
  using pi_ge_two by (simp add: clamp_def max_angle_def)

lemma clamp_two: "clamp 2 (- max_distance) max_distance = 1"
  by (simp add: clamp_def max_distance_def)

lemma example_state_unit: "length2 (orientation (pose (current_pose example_state))) = 1"
  by (simp add: example_state_def)



subsection \<open>The motion error\<close>

lemma motion_error_translational:
  "translational (fst (computeMotionError B L now s)) =
   vector_scale (fst (Normalize L (error_translation B s)))
     (clamp (snd (Normalize L (error_translation B s))) (- max_distance) max_distance)"
  by (simp add: computeMotionError_def error_translation_def Let_def split_beta)

lemma motion_error_rotational:
  "rotational (fst (computeMotionError B L now s)) =
   vector_scale (fst (GetRotAngle L (error_rotation B s) Vector_Zero))
     (clamp (snd (GetRotAngle L (error_rotation B s) Vector_Zero)) (- max_angle) max_angle)"
  by (simp add: computeMotionError_def error_rotation_def Let_def split_beta)


text \<open>
  C1. \<^verbatim>\<open>computeMotionError\<close> returns the 6D vector of the specification's algorithm run on
  the pose the solver reports and the target: error rotation = target rotation times the
  inverse of the current rotation, error translation = target position minus current
  position, the direction scaled by the clamped distance in components 0 to 2, the axis
  scaled by the clamped angle in components 3 to 5.
\<close>

theorem computeMotionError_as_specified:
  "fst (computeMotionError B L now s) =
   (case spec_motion_error (\<lambda>R. GetRotAngle L R Vector_Zero) (Normalize L)
           (getEndEffectorPose B (base s)) (m_target_frame s)
    of (translation_error_vec, rotation_error_vec) \<Rightarrow>
      Vector6D (vx translation_error_vec) (vy translation_error_vec) (vz translation_error_vec)
               (vx rotation_error_vec) (vy rotation_error_vec) (vz rotation_error_vec))"
  by (rule Vector6D_eqI)
     (simp_all add: motion_error_translational motion_error_rotational spec_motion_error_def
        error_rotation_def error_translation_def Let_def)

theorem computeMotionError_as_specified_witness:
  "fst (computeMotionError example_base example_library 0 example_target_state) = Vector6D 1 0 0 0 0 1"
  using computeMotionError_as_specified [of example_base example_library 0 example_target_state]
  by (simp add: spec_motion_error_def example_base_def example_library_def example_target_state_def
      example_state_def Rotation_Identity_def example_GetRotAngle_quarter example_Normalize_two
      clamp_quarter clamp_two del: example_GetRotAngle.simps)



text \<open>
  C5. After \<^verbatim>\<open>starting\<close> the target pose is the pose the solver reports; if that pose
  has a valid rotation and the library gives angle 0 for the identity and length 0 for
  the zero vector, \<^verbatim>\<open>computeMotionError\<close> called next returns the zero vector.
\<close>

theorem start_seeding:
  assumes "identity_angle_zero L" and "zero_length_zero L"
    and "is_rotation (Frame_M (getEndEffectorPose B (Base_starting B time (base s))))"
  shows "m_target_frame (starting B time s) = getEndEffectorPose B (base (starting B time s)) \<and>
         fst (computeMotionError B L now (starting B time s)) = Vector6D 0 0 0 0 0 0"
proof -
  let ?s = "starting B time s"
  have b: "base ?s = Base_starting B time (base s)"
    by (simp add: starting_def Let_def)
  have t: "m_target_frame ?s = getEndEffectorPose B (base ?s)"
    by (simp add: starting_def Let_def)
  have r: "error_rotation B ?s = Rotation_Identity"
    using assms(3) by (simp add: error_rotation_def t b is_rotation_def)
  have v: "error_translation B ?s = Vector_Zero"
    by (simp add: error_translation_def t vector_minus_self)
  have "rotational (fst (computeMotionError B L now ?s)) = Vector_Zero"
    unfolding motion_error_rotational r
    using assms(1) by (simp add: identity_angle_zero_def clamp_zero vector_scale_zero)
  moreover have "translational (fst (computeMotionError B L now ?s)) = Vector_Zero"
    unfolding motion_error_translational v
    using assms(2) by (simp add: zero_length_zero_def clamp_zero vector_scale_zero)
  ultimately have "fst (computeMotionError B L now ?s) = Vector6D 0 0 0 0 0 0"
    by (intro Vector6D_eqI) (simp_all add: Vector_Zero_def)
  with t show ?thesis by simp
qed

theorem start_seeding_witness:
  "identity_angle_zero example_library \<and> zero_length_zero example_library \<and>
   is_rotation (Frame_M (getEndEffectorPose example_base
                  (Base_starting example_base 0 (base example_target_state)))) \<and>
   m_target_frame (starting example_base 0 example_target_state) = Frame Rotation_Identity (Vector 0 0 0) \<and>
   fst (computeMotionError example_base example_library 1 (starting example_base 0 example_target_state))
     = Vector6D 0 0 0 0 0 0"
proof -
  have r: "is_rotation (Frame_M (getEndEffectorPose example_base
                  (Base_starting example_base 0 (base example_target_state))))"
    by (simp add: example_base_def example_target_state_def example_state_def is_rotation_def
        Rotation_Identity_def)
  have t: "getEndEffectorPose example_base (base (starting example_base 0 example_target_state)) =
           Frame Rotation_Identity (Vector 0 0 0)"
    by (simp add: starting_def example_base_def example_target_state_def example_state_def)
  show ?thesis
    using start_seeding [OF example_identity_angle_zero example_zero_length_zero r, of 1]
      r t example_identity_angle_zero example_zero_length_zero
    by simp
qed



text \<open>
  C9. The error \<^verbatim>\<open>computeMotionError\<close> returns is a function of the pose the solver
  reports and the target pose alone: two runs that agree on both return the same vector,
  whatever the clock, the effects so far and the other members are.
\<close>

theorem computeMotionError_deterministic:
  assumes "m_target_frame s = m_target_frame s'"
    and "getEndEffectorPose B (base s) = getEndEffectorPose B (base s')"
  shows "fst (computeMotionError B L now s) = fst (computeMotionError B L now' s')"
  using assms
  by (intro Vector6D_eqI)
     (simp_all add: motion_error_translational motion_error_rotational error_rotation_def
        error_translation_def)

theorem computeMotionError_deterministic_witness:
  "m_target_frame example_target_state =
     m_target_frame (example_target_state\<lparr>effects := [WriteJointControlCmds]\<rparr>) \<and>
   getEndEffectorPose example_base (base example_target_state) =
     getEndEffectorPose example_base (base (example_target_state\<lparr>effects := [WriteJointControlCmds]\<rparr>)) \<and>
   fst (computeMotionError example_base example_library 0 example_target_state) =
     fst (computeMotionError example_base example_library 7
            (example_target_state\<lparr>effects := [WriteJointControlCmds]\<rparr>))"
  using computeMotionError_deterministic
    [of example_target_state "example_target_state\<lparr>effects := [WriteJointControlCmds]\<rparr>"
        example_base example_library 0 7]
  by simp

subsection \<open>The producers\<close>

lemma targetTwistCallback_target:
  assumes "unit_quaternion_kept L" and "length2 (orientation (pose (current_pose s))) = 1"
  shows "m_target_frame (targetTwistCallback L s twist) =
         Frame (rotation_of (quaternion_times
                  (setRPY (vx (angular twist)) (vy (angular twist)) (vz (angular twist)))
                  (orientation (pose (current_pose s)))))
               (Vector (vx (position (pose (current_pose s))) + vx (linear twist))
                       (vy (position (pose (current_pose s))) + vy (linear twist))
                       (vz (position (pose (current_pose s))) + vz (linear twist)))"
proof -
  let ?q = "orientation (pose (current_pose s))"
  let ?d = "setRPY (vx (angular twist)) (vy (angular twist)) (vz (angular twist))"
  have 1: "quaternionMsgToTF L ?q = ?q"
    using assms by (simp add: unit_quaternion_kept_def)
  have "length2 (quaternion_times ?d ?q) = 1"
    using assms(2) by (simp add: length2_times length2_setRPY)
  then have 2: "quaternionTFToMsg L (quaternion_times ?d ?q) = quaternion_times ?d ?q"
    using assms(1) by (simp add: unit_quaternion_kept_def)
  show ?thesis
    by (simp add: targetTwistCallback_def Let_def 1 2 rotation_of_def)
qed

text \<open>
  C3. For every twist, when the snapshot's orientation is a unit quaternion (which the
  two quaternion conversions hand on as it is), the twist producer sets the target
  position to the snapshot's position plus the linear part and the target rotation to
  the roll-pitch-yaw rotation of the angular part times the snapshot's rotation. With the
  snapshot in the origin with identity orientation and the twist (1, 0, 0; 0, 0, 0) the
  target is at (1, 0, 0) with the identity rotation, the snapshot's own.
\<close>

theorem targetTwistCallback_as_specified:
  assumes "unit_quaternion_kept L" and "length2 (orientation (pose (current_pose s))) = 1"
  shows "Frame_p (m_target_frame (targetTwistCallback L s twist)) =
           Vector (vx (position (pose (current_pose s))) + vx (linear twist))
                  (vy (position (pose (current_pose s))) + vy (linear twist))
                  (vz (position (pose (current_pose s))) + vz (linear twist)) \<and>
         Frame_M (m_target_frame (targetTwistCallback L s twist)) =
           rotation_times (delta_rotation (angular twist))
                          (rotation_of (orientation (pose (current_pose s)))) \<and>
         (pose (current_pose s) = \<lparr>position = Vector 0 0 0, orientation = Quaternion 0 0 0 1\<rparr> \<and>
          twist = \<lparr>linear = Vector 1 0 0, angular = Vector 0 0 0\<rparr>
          \<longrightarrow> m_target_frame (targetTwistCallback L s twist) = Frame Rotation_Identity (Vector 1 0 0) \<and>
              rotation_of (orientation (pose (current_pose s))) = Rotation_Identity)"
proof -
  have d: "rotation_of (setRPY (vx w) (vy w) (vz w)) = delta_rotation w" for w
    by (cases w) (simp add: rotation_of_setRPY)
  have i: "rotation_of (Quaternion 0 0 0 1) = Rotation_Identity"
    by (simp add: rotation_of_def Rotation_Quaternion_def Rotation_Identity_def)
  have z: "delta_rotation (Vector 0 0 0) = Rotation_Identity"
    by (simp add: delta_rotation_def rotation_x_def rotation_y_def rotation_z_def Rotation_Identity_def)
  have r: "rotation_of (setRPY 0 0 0) = Rotation_Identity"
    using d [of "Vector 0 0 0"] z by simp
  show ?thesis
    unfolding targetTwistCallback_target [OF assms]
    by (auto simp: rotation_of_times d i r Rotation_Identity_def)
qed

theorem targetTwistCallback_as_specified_witness:
  "unit_quaternion_kept example_library \<and>
   length2 (orientation (pose (current_pose example_state))) = 1 \<and>
   m_target_frame (targetTwistCallback example_library example_state
      \<lparr>linear = Vector 1 0 0, angular = Vector 0 0 0\<rparr>) = Frame Rotation_Identity (Vector 1 0 0)"
proof -
  have p: "pose (current_pose example_state) =
           \<lparr>position = Vector 0 0 0, orientation = Quaternion 0 0 0 1\<rparr>"
    by (simp add: example_state_def)
  show ?thesis
    using targetTwistCallback_as_specified [OF example_unit_quaternion_kept example_state_unit,
        of "\<lparr>linear = Vector 1 0 0, angular = Vector 0 0 0\<rparr>"]
      p example_unit_quaternion_kept example_state_unit
    by simp
qed

text \<open>
  C4. An absolute-pose update whose \<open>frame_id\<close> differs from the robot base link changes
  nothing but the effect list, to which it appends one throttled warning; the target
  pose stays as it was. An update whose \<open>frame_id\<close> matches changes nothing but the target
  pose, which becomes the frame of the received orientation and position.
\<close>

theorem targetFrameCallback_frames:
  "(frame_id target \<noteq> m_robot_base_link B \<longrightarrow>
      targetFrameCallback B s target =
        s\<lparr>effects := effects s @
            [Warn_Throttle 3 (wrong_frame_message (m_robot_base_link B) (frame_id target))]\<rparr> \<and>
      m_target_frame (targetFrameCallback B s target) = m_target_frame s) \<and>
   (frame_id target = m_robot_base_link B \<longrightarrow>
      targetFrameCallback B s target =
        s\<lparr>m_target_frame :=
            Frame (rotation_of (orientation (pose target))) (position (pose target))\<rparr>)"
  by (simp add: targetFrameCallback_def rotation_of_def)

theorem targetFrameCallback_frames_witness:
  "''world'' \<noteq> m_robot_base_link example_base \<and>
   m_target_frame (targetFrameCallback example_base example_state
      \<lparr>stamp = 0, frame_id = ''world'',
       pose = \<lparr>position = Vector 1 2 3, orientation = Quaternion 0 0 1 0\<rparr>\<rparr>)
     = m_target_frame example_state \<and>
   effects (targetFrameCallback example_base example_state
      \<lparr>stamp = 0, frame_id = ''world'',
       pose = \<lparr>position = Vector 1 2 3, orientation = Quaternion 0 0 1 0\<rparr>\<rparr>)
     = [Warn_Throttle 3 (wrong_frame_message ''base_link'' ''world'')] \<and>
   ''base_link'' = m_robot_base_link example_base \<and>
   m_target_frame (targetFrameCallback example_base example_state
      \<lparr>stamp = 0, frame_id = ''base_link'',
       pose = \<lparr>position = Vector 1 2 3, orientation = Quaternion 0 0 1 0\<rparr>\<rparr>)
     = Frame (Rotation (- 1) 0 0  0 (- 1) 0  0 0 1) (Vector 1 2 3)"
proof -
  have b: "m_robot_base_link example_base = ''base_link''"
    by (simp add: example_base_def)
  have e: "effects example_state = []"
    by (simp add: example_state_def)
  have r: "rotation_of (Quaternion 0 0 1 0) = Rotation (- 1) 0 0  0 (- 1) 0  0 0 1"
    by (simp add: rotation_of_def Rotation_Quaternion_def)
  show ?thesis
    using targetFrameCallback_frames [of "\<lparr>stamp = 0, frame_id = ''world'',
        pose = \<lparr>position = Vector 1 2 3, orientation = Quaternion 0 0 1 0\<rparr>\<rparr>" example_base example_state]
      targetFrameCallback_frames [of "\<lparr>stamp = 0, frame_id = ''base_link'',
        pose = \<lparr>position = Vector 1 2 3, orientation = Quaternion 0 0 1 0\<rparr>\<rparr>" example_base example_state]
    by (simp add: b e r)
qed

text \<open>
  C7, as stated, fails: the absolute-pose producer stores the matrix of the quaternion
  it receives without checking or normalizing it, so the quaternion (0, 0, 0, 2) in the
  base frame leaves the target with the matrix 4 times the identity.
\<close>

theorem malformed_orientation_counterexample:
  "\<not> is_rotation (Frame_M (m_target_frame (targetFrameCallback example_base example_state
        \<lparr>stamp = 0, frame_id = ''base_link'',
         pose = \<lparr>position = Vector 0 0 0, orientation = Quaternion 0 0 0 2\<rparr>\<rparr>)))"
  by (simp add: targetFrameCallback_def example_base_def example_state_def is_rotation_def
      Rotation_Quaternion_def Rotation_Identity_def)

text \<open>
  C7, amended. A producer update leaves the target pose with a valid rotation whenever
  the orientation it reads is a unit quaternion: an accepted absolute-pose update with a
  unit quaternion, a rejected one when the target was valid before, and a twist update
  when the snapshot's orientation is a unit quaternion that the two conversions hand on
  as it is.
\<close>

theorem producers_keep_unit_orientation_valid:
  "(frame_id target = m_robot_base_link B \<and> length2 (orientation (pose target)) = 1 \<longrightarrow>
      is_rotation (Frame_M (m_target_frame (targetFrameCallback B s target)))) \<and>
   (frame_id target \<noteq> m_robot_base_link B \<and> is_rotation (Frame_M (m_target_frame s)) \<longrightarrow>
      is_rotation (Frame_M (m_target_frame (targetFrameCallback B s target)))) \<and>
   (unit_quaternion_kept L \<and> length2 (orientation (pose (current_pose s))) = 1 \<longrightarrow>
      is_rotation (Frame_M (m_target_frame (targetTwistCallback L s twist))))"
proof -
  have "is_rotation (Frame_M (m_target_frame (targetTwistCallback L s twist)))"
    if "unit_quaternion_kept L" and "length2 (orientation (pose (current_pose s))) = 1"
    unfolding targetTwistCallback_target [OF that]
    using that(2) by (simp add: unit_quaternion_is_rotation length2_times length2_setRPY)
  moreover have "is_rotation (Frame_M (m_target_frame (targetFrameCallback B s target)))"
    if "frame_id target = m_robot_base_link B" and "length2 (orientation (pose target)) = 1"
    using that unit_quaternion_is_rotation [of "orientation (pose target)"]
    by (simp add: targetFrameCallback_def rotation_of_def)
  moreover have "is_rotation (Frame_M (m_target_frame (targetFrameCallback B s target)))"
    if "frame_id target \<noteq> m_robot_base_link B" and "is_rotation (Frame_M (m_target_frame s))"
    using that by (simp add: targetFrameCallback_def)
  ultimately show ?thesis by blast
qed

theorem producers_keep_unit_orientation_valid_witness:
  "''base_link'' = m_robot_base_link example_base \<and>
   length2 (Quaternion 0 0 1 0) = 1 \<and>
   is_rotation (Frame_M (m_target_frame (targetFrameCallback example_base example_state
      \<lparr>stamp = 0, frame_id = ''base_link'',
       pose = \<lparr>position = Vector 1 2 3, orientation = Quaternion 0 0 1 0\<rparr>\<rparr>))) \<and>
   ''world'' \<noteq> m_robot_base_link example_base \<and>
   is_rotation (Frame_M (m_target_frame example_state)) \<and>
   is_rotation (Frame_M (m_target_frame (targetFrameCallback example_base example_state
      \<lparr>stamp = 0, frame_id = ''world'',
       pose = \<lparr>position = Vector 1 2 3, orientation = Quaternion 0 0 0 2\<rparr>\<rparr>))) \<and>
   unit_quaternion_kept example_library \<and>
   length2 (orientation (pose (current_pose example_state))) = 1 \<and>
   is_rotation (Frame_M (m_target_frame (targetTwistCallback example_library example_state
      \<lparr>linear = Vector 1 0 0, angular = Vector 0 0 1\<rparr>)))"
proof -
  have b: "m_robot_base_link example_base = ''base_link''"
    by (simp add: example_base_def)
  have i: "is_rotation (Frame_M (m_target_frame example_state))"
    by (simp add: example_state_def is_rotation_def Rotation_Identity_def)
  show ?thesis
    using producers_keep_unit_orientation_valid [of "\<lparr>stamp = 0, frame_id = ''base_link'',
        pose = \<lparr>position = Vector 1 2 3, orientation = Quaternion 0 0 1 0\<rparr>\<rparr>" example_base
        example_state example_library "\<lparr>linear = Vector 1 0 0, angular = Vector 0 0 1\<rparr>"]
      producers_keep_unit_orientation_valid [of "\<lparr>stamp = 0, frame_id = ''world'',
        pose = \<lparr>position = Vector 1 2 3, orientation = Quaternion 0 0 0 2\<rparr>\<rparr>" example_base
        example_state example_library "\<lparr>linear = Vector 1 0 0, angular = Vector 0 0 1\<rparr>"]
      example_unit_quaternion_kept example_state_unit
    by (simp add: b i)
qed

subsection \<open>The control cycle\<close>




end
